theory Spec2Isabelle
  imports Complex_Main "HOL-Library.Monad_Syntax"
begin

section \<open>Values exchanged with the HTTP layer\<close>

text \<open>
  The service is one Flask module, \<^verbatim>\<open>clients/cliente3/app.py\<close>. Every view function builds a
  dictionary and hands it to \<^verbatim>\<open>jsonify\<close>; the dictionary is kept as an association list in
  the order of the source, Python floats are real numbers and Python integers are \<open>int\<close>.
\<close>

datatype json = JString string | JInt int | JFloat real | JObject "(string \<times> json) list"

record response =
  status :: nat
  body :: json

text \<open>
  What can be raised while a request is served: the \<^verbatim>\<open>Exception\<close> of the error endpoint, the
  \<^verbatim>\<open>ValueError\<close> of \<^verbatim>\<open>time.sleep\<close> on a negative length, and a failure of a psutil
  reading. Each carries the text that \<^verbatim>\<open>str(error)\<close> gives.
\<close>

datatype exn = Exception string | ValueError string | PsutilError string

fun str_exn :: "exn \<Rightarrow> string" where
  "str_exn (Exception m) = m"
| "str_exn (ValueError m) = m"
| "str_exn (PsutilError m) = m"

text \<open>
  A view function blocks in \<^verbatim>\<open>time.sleep\<close> and then returns or raises: its outcome is the
  list of the lengths it slept, in order, with the response or the exception.
\<close>

type_synonym 'a io = "real list \<times> (exn + 'a)"

definition jsonify :: "(string \<times> json) list \<Rightarrow> response" where
  "jsonify kvs = \<lparr>status = 200, body = JObject kvs\<rparr>"

definition body_field :: "response \<Rightarrow> string \<Rightarrow> json option" where
  "body_field r k = (case body r of JObject kvs \<Rightarrow> map_of kvs k | _ \<Rightarrow> None)"

section \<open>Dates and their ISO format\<close>

record datetime =
  year :: nat
  month :: nat
  day :: nat
  hour :: nat
  minute :: nat
  second :: nat
  microsecond :: nat

definition digit_char :: "nat \<Rightarrow> char" where
  "digit_char d = char_of (48 + d)"

definition is_digit :: "char \<Rightarrow> bool" where
  "is_digit c = (48 \<le> (of_char c :: nat) \<and> (of_char c :: nat) \<le> 57)"

definition digit_value :: "char \<Rightarrow> nat" where
  "digit_value c = of_char c - 48"

text \<open>\<^verbatim>\<open>"%d" % n\<close> for a natural number.\<close>

fun show_nat :: "nat \<Rightarrow> string" where
  "show_nat n = (if n < 10 then [digit_char n] else show_nat (n div 10) @ [digit_char (n mod 10)])"

declare show_nat.simps [simp del]

text \<open>\<^verbatim>\<open>"%0wd" % n\<close>: zeros on the left up to width \<open>w\<close>, nothing cut when \<open>n\<close> is longer.\<close>

definition zero_pad :: "nat \<Rightarrow> nat \<Rightarrow> string" where
  "zero_pad w n = replicate (w - length (show_nat n)) (CHR ''0'') @ show_nat n"

text \<open>The \<open>w\<close> lowest decimal digits of \<open>n\<close>; the proofs compare \<open>zero_pad\<close> with it.\<close>

fun fixed_digits :: "nat \<Rightarrow> nat \<Rightarrow> string" where
  "fixed_digits 0 n = []"
| "fixed_digits (Suc w) n = fixed_digits w (n div 10) @ [digit_char (n mod 10)]"

text \<open>
  \<^verbatim>\<open>datetime.isoformat()\<close> of a naive datetime: \<^verbatim>\<open>%04d-%02d-%02dT%02d:%02d:%02d\<close>, followed by
  \<^verbatim>\<open>.%06d\<close> of the microseconds when they are not zero.
\<close>

definition isoformat :: "datetime \<Rightarrow> string" where
  "isoformat d =
     zero_pad 4 (year d) @ ''-'' @ zero_pad 2 (month d) @ ''-'' @ zero_pad 2 (day d) @ ''T'' @
     zero_pad 2 (hour d) @ '':'' @ zero_pad 2 (minute d) @ '':'' @ zero_pad 2 (second d) @
     (if microsecond d \<noteq> 0 then ''.'' @ zero_pad 6 (microsecond d) else [])"

definition is_leap :: "nat \<Rightarrow> bool" where
  "is_leap y = (y mod 4 = 0 \<and> (y mod 100 \<noteq> 0 \<or> y mod 400 = 0))"

definition days_in_month :: "nat \<Rightarrow> nat \<Rightarrow> nat" where
  "days_in_month y m =
     (if m = 2 then (if is_leap y then 29 else 28)
      else if m = 4 \<or> m = 6 \<or> m = 9 \<or> m = 11 then 30 else 31)"

definition calendar_ok :: "datetime \<Rightarrow> bool" where
  "calendar_ok d =
     (1 \<le> month d \<and> month d \<le> 12 \<and> 1 \<le> day d \<and> day d \<le> days_in_month (year d) (month d) \<and>
      hour d < 24 \<and> minute d < 60 \<and> second d < 60 \<and> microsecond d < 1000000)"

text \<open>The values a Python \<^verbatim>\<open>datetime\<close> object can hold (years 1 to 9999).\<close>

definition valid_datetime :: "datetime \<Rightarrow> bool" where
  "valid_datetime d = (1 \<le> year d \<and> year d \<le> 9999 \<and> calendar_ok d)"

text \<open>
  Well-formedness of a timestamp is what the specification asks of it; it is defined here by
  a reader of the ISO-8601 extended format \<^verbatim>\<open>YYYY-MM-DDThh:mm:ss\<close> with an optional fraction of
  six digits, which also checks that the fields name a date and a time of day.
\<close>

fun read_digits :: "nat \<Rightarrow> nat \<Rightarrow> string \<Rightarrow> (nat \<times> string) option" where
  "read_digits 0 acc s = Some (acc, s)"
| "read_digits (Suc n) acc [] = None"
| "read_digits (Suc n) acc (c # cs) =
     (if is_digit c then read_digits n (10 * acc + digit_value c) cs else None)"

fun expect :: "char \<Rightarrow> string \<Rightarrow> string option" where
  "expect c [] = None"
| "expect c (x # xs) = (if x = c then Some xs else None)"

definition read_fraction :: "string \<Rightarrow> nat option" where
  "read_fraction s =
     (if s = [] then Some 0
      else do {
        s1 \<leftarrow> expect (CHR ''.'') s;
        (us, s2) \<leftarrow> read_digits 6 0 s1;
        if s2 = [] then Some us else None
      })"

definition parse_iso8601 :: "string \<Rightarrow> datetime option" where
  "parse_iso8601 s = do {
     (y, s1) \<leftarrow> read_digits 4 0 s;
     s2 \<leftarrow> expect (CHR ''-'') s1;
     (mo, s3) \<leftarrow> read_digits 2 0 s2;
     s4 \<leftarrow> expect (CHR ''-'') s3;
     (d, s5) \<leftarrow> read_digits 2 0 s4;
     s6 \<leftarrow> expect (CHR ''T'') s5;
     (h, s7) \<leftarrow> read_digits 2 0 s6;
     s8 \<leftarrow> expect (CHR '':'') s7;
     (mi, s9) \<leftarrow> read_digits 2 0 s8;
     s10 \<leftarrow> expect (CHR '':'') s9;
     (se, s11) \<leftarrow> read_digits 2 0 s10;
     us \<leftarrow> read_fraction s11;
     (let dt = \<lparr>year = y, month = mo, day = d, hour = h, minute = mi, second = se,
                 microsecond = us\<rparr>
      in if calendar_ok dt then Some dt else None)
   }"

definition iso8601_wf :: "string \<Rightarrow> bool" where
  "iso8601_wf s = (parse_iso8601 s \<noteq> None)"

section \<open>What a request reads from its surroundings\<close>

text \<open>
  The view functions read the clock, the psutil sensors and the global random generator.
  One \<open>env\<close> holds what these calls return while one request is served:
  \<open>random_random w i\<close> is the result of the \<open>i\<close>-th call of \<^verbatim>\<open>random.random()\<close> (counted from
  0, also the calls made inside \<^verbatim>\<open>random.uniform\<close>), and \<open>random_randbelow w i n\<close> the result
  of the \<open>i\<close>-th draw of an integer below \<open>n\<close> (made inside \<^verbatim>\<open>random.randint\<close>). A psutil
  reading either gives its value or raises.
\<close>

record env =
  datetime_now :: datetime
  time_time :: real
  Process_create_time :: "exn + real"
  Process_memory_percent :: "exn + real"
  Process_cpu_percent :: "exn + real"
  psutil_cpu_percent :: "real \<Rightarrow> exn + real"
  psutil_virtual_memory :: "exn + (string \<times> json) list"
  psutil_disk_usage :: "string \<Rightarrow> exn + (string \<times> json) list"
  psutil_net_io_counters :: "exn + (string \<times> json) list"
  random_random :: "nat \<Rightarrow> real"
  random_randbelow :: "nat \<Rightarrow> int \<Rightarrow> int"

text \<open>
  The ranges the random module documents: \<^verbatim>\<open>random()\<close> is in \<open>[0, 1)\<close>, and a draw below \<open>n\<close>
  is in \<open>[0, n)\<close>.
\<close>

definition rng_ok :: "env \<Rightarrow> bool" where
  "rng_ok w =
     ((\<forall>i. 0 \<le> random_random w i \<and> random_random w i < 1) \<and>
      (\<forall>i n. 0 < n \<longrightarrow> 0 \<le> random_randbelow w i n \<and> random_randbelow w i n < n))"


text \<open>\<^verbatim>\<open>random.uniform(a, b)\<close> is \<^verbatim>\<open>a + (b - a) * random()\<close>.\<close>

definition uniform :: "real \<Rightarrow> real \<Rightarrow> real \<Rightarrow> real" where
  "uniform a b u = a + (b - a) * u"

text \<open>\<^verbatim>\<open>random.randint(a, b)\<close> is \<^verbatim>\<open>a\<close> plus a draw below \<^verbatim>\<open>b - a + 1\<close>.\<close>

definition randint :: "env \<Rightarrow> nat \<Rightarrow> int \<Rightarrow> int \<Rightarrow> int" where
  "randint w i a b = a + random_randbelow w i (b - a + 1)"

text \<open>\<^verbatim>\<open>time.sleep\<close> refuses a negative length.\<close>

definition time_sleep :: "real \<Rightarrow> unit io" where
  "time_sleep d =
     (if d < 0 then ([], Inl (ValueError ''sleep length must be non-negative''))
      else ([d], Inr ()))"

definition bind_exn :: "exn + 'a \<Rightarrow> ('a \<Rightarrow> exn + 'b) \<Rightarrow> exn + 'b" where
  "bind_exn x f = (case x of Inl e \<Rightarrow> Inl e | Inr v \<Rightarrow> f v)"

section \<open>The view functions\<close>

definition home :: "env \<Rightarrow> response io" where
  "home w =
     ([], Inr (jsonify
        [(''message'', JString ''Hello from Cliente 3 - Flask App!''),
         (''timestamp'', JString (isoformat (datetime_now w))),
         (''project'', JString ''cliente3'')]))"

text \<open>
  The dictionary of \<^verbatim>\<open>health\<close> is evaluated from top to bottom, so the first reading that
  raises decides the exception.
\<close>

definition health :: "env \<Rightarrow> response io" where
  "health w =
     ([], bind_exn (Process_create_time w) (\<lambda>created.
          bind_exn (Process_memory_percent w) (\<lambda>mem.
          bind_exn (Process_cpu_percent w) (\<lambda>cpu.
          Inr (jsonify
            [(''status'', JString ''healthy''),
             (''uptime'', JFloat (time_time w - created)),
             (''memory_percent'', JFloat mem),
             (''cpu_percent'', JFloat cpu),
             (''timestamp'', JString (isoformat (datetime_now w)))])))))"

definition get_data :: "env \<Rightarrow> response io" where
  "get_data w =
     (case time_sleep (uniform 0.1 0.5 (random_random w 0)) of
        (slept, Inl e) \<Rightarrow> (slept, Inl e)
      | (slept, Inr _) \<Rightarrow>
          (slept, Inr (jsonify
             [(''customers'', JInt (randint w 0 100 1000)),
              (''sales'', JInt (randint w 1 50 500)),
              (''profit'', JInt (randint w 2 1000 10000)),
              (''timestamp'', JString (isoformat (datetime_now w)))])))"

definition slow_endpoint :: "env \<Rightarrow> response io" where
  "slow_endpoint w =
     (case time_sleep (uniform 1 3 (random_random w 0)) of
        (slept, Inl e) \<Rightarrow> (slept, Inl e)
      | (slept, Inr _) \<Rightarrow>
          (slept, Inr (jsonify
             [(''message'', JString ''This was a slow request from Flask''),
              (''timestamp'', JString (isoformat (datetime_now w)))])))"

definition error_endpoint :: "env \<Rightarrow> response io" where
  "error_endpoint w =
     (if random_random w 0 > 0.5
      then ([], Inl (Exception ''Random error for testing from Flask''))
      else ([], Inr (jsonify [(''message'', JString ''Success from Flask!'')])))"

definition system_info :: "env \<Rightarrow> response io" where
  "system_info w =
     ([], bind_exn (psutil_cpu_percent w 1) (\<lambda>cpu.
          bind_exn (psutil_virtual_memory w) (\<lambda>mem.
          bind_exn (psutil_disk_usage w ''/'') (\<lambda>disk.
          bind_exn (psutil_net_io_counters w) (\<lambda>net.
          Inr (jsonify
            [(''cpu_percent'', JFloat cpu),
             (''memory'', JObject mem),
             (''disk'', JObject disk),
             (''network'', JObject net),
             (''timestamp'', JString (isoformat (datetime_now w)))]))))))"

text \<open>The handler registered for \<^verbatim>\<open>Exception\<close>: the pair of a JSON body and the status 500.\<close>

definition handle_error :: "exn \<Rightarrow> response" where
  "handle_error error = (jsonify [(''error'', JString (str_exn error))])\<lparr>status := 500\<rparr>"

section \<open>Routing and serving\<close>

datatype endpoint = Home | Health | Get_data | Slow_endpoint | Error_endpoint | System_info

fun route :: "endpoint \<Rightarrow> string" where
  "route Home = ''/''"
| "route Health = ''/health''"
| "route Get_data = ''/api/data''"
| "route Slow_endpoint = ''/api/slow''"
| "route Error_endpoint = ''/api/error''"
| "route System_info = ''/api/system''"

fun view_function :: "endpoint \<Rightarrow> env \<Rightarrow> response io" where
  "view_function Home = home"
| "view_function Health = health"
| "view_function Get_data = get_data"
| "view_function Slow_endpoint = slow_endpoint"
| "view_function Error_endpoint = error_endpoint"
| "view_function System_info = system_info"

text \<open>
  One request: the view function of the matched rule runs once, and an exception it raises
  goes to the registered handler.
\<close>

definition full_dispatch_request :: "endpoint \<Rightarrow> env \<Rightarrow> real list \<times> response" where
  "full_dispatch_request ep w =
     (case view_function ep w of
        (slept, Inl e) \<Rightarrow> (slept, handle_error e)
      | (slept, Inr r) \<Rightarrow> (slept, r))"

text \<open>
  The life of the process after the module is loaded: requests are answered one after the
  other, each with the surroundings it finds.
\<close>

fun serve :: "(endpoint \<times> env) list \<Rightarrow> (real list \<times> response) list" where
  "serve [] = []"
| "serve ((ep, w) # reqs) = full_dispatch_request ep w # serve reqs"

section \<open>The random generator shared by the requests\<close>

text \<open>
  The calls of the \<^verbatim>\<open>random\<close> module go to one generator that lives as long as the process:
  what a request draws depends on how many draws the requests before it made. A \<open>generator\<close>
  is the sequence of values \<^verbatim>\<open>random.random()\<close> returns and the sequence of integer draws,
  with the number of values already taken from each.
\<close>

record generator =
  gen_random :: "nat \<Rightarrow> real"
  gen_randbelow :: "nat \<Rightarrow> int \<Rightarrow> int"
  random_calls :: nat
  randbelow_calls :: nat

text \<open>
  What a request finds: the clock and the sensors as \<open>w\<close> gives them, and the draws the
  generator hands out next.
\<close>

definition request_env :: "generator \<Rightarrow> env \<Rightarrow> env" where
  "request_env g w =
     w\<lparr>random_random := (\<lambda>i. gen_random g (random_calls g + i)),
       random_randbelow := (\<lambda>i n. gen_randbelow g (randbelow_calls g + i) n)\<rparr>"

text \<open>
  The values a view function draws, in the order of the source: \<^verbatim>\<open>get_data\<close> draws the length
  of its sleep and, once it has slept, the three integers; \<^verbatim>\<open>slow_endpoint\<close> and
  \<^verbatim>\<open>error_endpoint\<close> make one draw; the other three make none.
\<close>

fun draws :: "endpoint \<Rightarrow> env \<Rightarrow> real list \<times> int list" where
  "draws Get_data w =
     ([random_random w 0],
      if uniform 0.1 0.5 (random_random w 0) < 0 then []
      else [random_randbelow w 0 901, random_randbelow w 1 451, random_randbelow w 2 9001])"
| "draws Slow_endpoint w = ([random_random w 0], [])"
| "draws Error_endpoint w = ([random_random w 0], [])"
| "draws ep w = ([], [])"

definition advance :: "generator \<Rightarrow> endpoint \<Rightarrow> env \<Rightarrow> generator" where
  "advance g ep w =
     g\<lparr>random_calls := random_calls g + length (fst (draws ep w)),
       randbelow_calls := randbelow_calls g + length (snd (draws ep w))\<rparr>"

text \<open>
  The life of the process with its generator: each request is answered in the surroundings
  it finds, and the generator moves on by the draws the request made.
\<close>

fun run_process ::
  "generator \<Rightarrow> (endpoint \<times> env) list \<Rightarrow> (real list \<times> response) list \<times> generator" where
  "run_process g [] = ([], g)"
| "run_process g ((ep, w) # reqs) =
     (case run_process (advance g ep (request_env g w)) reqs of
        (outs, g') \<Rightarrow> (full_dispatch_request ep (request_env g w) # outs, g'))"

text \<open>Two surroundings with the same clock values and the same sensor readings.\<close>

definition same_readings :: "env \<Rightarrow> env \<Rightarrow> bool" where
  "same_readings w1 w2 =
     (datetime_now w1 = datetime_now w2 \<and> time_time w1 = time_time w2 \<and>
      Process_create_time w1 = Process_create_time w2 \<and>
      Process_memory_percent w1 = Process_memory_percent w2 \<and>
      Process_cpu_percent w1 = Process_cpu_percent w2 \<and>
      psutil_cpu_percent w1 = psutil_cpu_percent w2 \<and>
      psutil_virtual_memory w1 = psutil_virtual_memory w2 \<and>
      psutil_disk_usage w1 = psutil_disk_usage w2 \<and>
      psutil_net_io_counters w1 = psutil_net_io_counters w2)"

section \<open>Loading the module\<close>

text \<open>
  \<^verbatim>\<open>PORT = int(os.getenv('PORT', 5000))\<close> runs when the module is loaded. \<^verbatim>\<open>os.getenv\<close> gives
  the string of the variable or the default, the integer 5000.
\<close>

datatype pyval = PyStr string | PyInt int

datatype load_error = InvalidLiteral string

definition os_getenv :: "(string \<rightharpoonup> string) \<Rightarrow> string \<Rightarrow> pyval \<Rightarrow> pyval" where
  "os_getenv environ key dflt = (case environ key of Some v \<Rightarrow> PyStr v | None \<Rightarrow> dflt)"

text \<open>
  \<^verbatim>\<open>int\<close> is a builtin of the interpreter, not code of the repository. What it does on a
  string is taken as a parameter \<open>int_str\<close>: the integer the string is read as, or \<open>None\<close> when
  the string does not parse and \<^verbatim>\<open>int\<close> raises \<^verbatim>\<open>ValueError\<close>. On an integer \<^verbatim>\<open>int\<close> returns it.
\<close>

fun py_int :: "(string \<Rightarrow> int option) \<Rightarrow> pyval \<Rightarrow> load_error + int" where
  "py_int int_str (PyInt n) = Inr n"
| "py_int int_str (PyStr s) =
     (case int_str s of None \<Rightarrow> Inl (InvalidLiteral s) | Some n \<Rightarrow> Inr n)"

record module =
  PORT :: int

definition load_module :: "(string \<Rightarrow> int option) \<Rightarrow> (string \<rightharpoonup> string) \<Rightarrow> load_error + module" where
  "load_module int_str environ =
     (case py_int int_str (os_getenv environ ''PORT'' (PyInt 5000)) of
        Inl e \<Rightarrow> Inl e
      | Inr p \<Rightarrow> Inr \<lparr>PORT = p\<rparr>)"

text \<open>
  The program: the module is loaded, and only then are requests served. A failure of the
  load ends the program with no request answered.
\<close>

definition program ::
  "(string \<Rightarrow> int option) \<Rightarrow> (string \<rightharpoonup> string) \<Rightarrow> (endpoint \<times> env) list \<Rightarrow>
     load_error + (real list \<times> response) list" where
  "program int_str environ reqs =
     (case load_module int_str environ of Inl e \<Rightarrow> Inl e | Inr m \<Rightarrow> Inr (serve reqs))"

section \<open>Concrete surroundings\<close>

text \<open>
  One set of readings to run the definitions on: a leap day, a process started 100 seconds
  before the clock reading, and a random generator whose draws are 0.75 and the largest
  integer below the bound.
\<close>

definition example_env :: env where
  "example_env =
     \<lparr>datetime_now = \<lparr>year = 2024, month = 2, day = 29, hour = 7, minute = 5, second = 9,
                       microsecond = 1234\<rparr>,
      time_time = 1000,
      Process_create_time = Inr 900,
      Process_memory_percent = Inr 1.5,
      Process_cpu_percent = Inr 0,
      psutil_cpu_percent = (\<lambda>interval. Inr 12),
      psutil_virtual_memory = Inr [(''total'', JInt 1024)],
      psutil_disk_usage = (\<lambda>path. Inr [(''total'', JInt 4096)]),
      psutil_net_io_counters = Inr [(''bytes_sent'', JInt 0)],
      random_random = (\<lambda>i. 0.75),
      random_randbelow = (\<lambda>i n. n - 1)\<rparr>"

text \<open>A generator at its start, with the same draws as \<open>example_env\<close>.\<close>

definition example_generator :: generator where
  "example_generator =
     \<lparr>gen_random = (\<lambda>k. 0.75), gen_randbelow = (\<lambda>k n. n - 1),
      random_calls = 0, randbelow_calls = 0\<rparr>"

section \<open>Facts about the building blocks\<close>

lemma body_field_jsonify: "body_field (jsonify kvs) k = map_of kvs k"
  by (simp add: body_field_def jsonify_def)

lemma status_jsonify: "status (jsonify kvs) = 200"
  by (simp add: jsonify_def)

lemma rng_ok_example_env: "rng_ok example_env"
  by (simp add: rng_ok_def example_env_def)

lemma route_inj: "inj route"
proof (rule injI)
  fix a b
  assume "route a = route b"
  then show "a = b" by (cases a; cases b) simp_all
qed

lemma load_module_default: "load_module int_str Map.empty = Inr \<lparr>PORT = 5000\<rparr>"
  by (simp add: load_module_def os_getenv_def)

lemma good_port_loads:
  "environ ''PORT'' = Some s \<Longrightarrow> int_str s = Some p \<Longrightarrow>
   load_module int_str environ = Inr \<lparr>PORT = p\<rparr> \<and> program int_str environ reqs = Inr (serve reqs)"
  by (simp add: load_module_def program_def os_getenv_def)

section \<open>The error endpoint and the catch-all handler\<close>

text \<open>
  Claim C9. The view function of \<^verbatim>\<open>/api/error\<close> raises exactly when its draw is strictly
  greater than 0.5, and what it raises is the one \<^verbatim>\<open>Exception\<close> of the source; with a draw
  of exactly 0.5 it returns the success message.
\<close>

theorem error_endpoint_raises_iff:
  "(\<exists>e. snd (error_endpoint w) = Inl e) = (0.5 < random_random w 0) \<and>
   (snd (error_endpoint w) = Inl (Exception ''Random error for testing from Flask''))
     = (0.5 < random_random w 0) \<and>
   error_endpoint (w\<lparr>random_random := (\<lambda>i. 0.5)\<rparr>) =
     ([], Inr (jsonify [(''message'', JString ''Success from Flask!'')]))"
  by (simp add: error_endpoint_def)

text \<open>
  Claim C1, as it is written, names the message \<^verbatim>\<open>Random error for testing\<close>. With a draw of
  0.75 the view function raises, the exception is not the one with that message, and the
  body sent to the client carries the longer text of the source.
\<close>

theorem error_endpoint_message_counterexample:
  "0.5 < random_random example_env 0 \<and>
   snd (error_endpoint example_env) \<noteq> Inl (Exception ''Random error for testing'') \<and>
   snd (full_dispatch_request Error_endpoint example_env) =
     \<lparr>status = 500,
      body = JObject [(''error'', JString ''Random error for testing from Flask'')]\<rparr> \<and>
   ''Random error for testing from Flask'' \<noteq> ''Random error for testing''"
  by (simp add: example_env_def error_endpoint_def full_dispatch_request_def handle_error_def
      jsonify_def)

text \<open>
  Claim C1, amended. For every request to \<^verbatim>\<open>/api/error\<close> the view function raises the
  \<^verbatim>\<open>Exception\<close> with the message \<^verbatim>\<open>Random error for testing from Flask\<close> when the draw is
  above 0.5, and returns the message \<^verbatim>\<open>Success from Flask!\<close> with status 200 otherwise. Of
  the draws in \<open>[0, 1)\<close>, those that raise are the open interval from 0.5 to 1 and those that
  succeed the closed interval from 0 to 0.5: two halves of the unit interval, so a draw that
  is uniform over it raises with probability 0.5.
\<close>

theorem error_endpoint_coin_flip:
  "error_endpoint w =
     (if 0.5 < random_random w 0
      then ([], Inl (Exception ''Random error for testing from Flask''))
      else ([], Inr \<lparr>status = 200,
                      body = JObject [(''message'', JString ''Success from Flask!'')]\<rparr>)) \<and>
   {u. 0 \<le> u \<and> u < 1 \<and> isl (snd (error_endpoint (w\<lparr>random_random := (\<lambda>i. u)\<rparr>)))}
     = {0.5 <..< 1} \<and>
   {u. 0 \<le> u \<and> u < 1 \<and> \<not> isl (snd (error_endpoint (w\<lparr>random_random := (\<lambda>i. u)\<rparr>)))}
     = {0 .. 0.5}"
  by (auto simp: error_endpoint_def jsonify_def)

text \<open>
  Claim C2. Whatever a view function raises, the request is answered by \<open>handle_error\<close>: the
  body is the object with the one key \<^verbatim>\<open>error\<close> holding the text of the exception, the status
  is 500, and the time slept is that of the single run of the view function, which is not
  run again.
\<close>

theorem errors_go_to_handle_error:
  "snd (view_function ep w) = Inl e \<Longrightarrow>
   full_dispatch_request ep w =
     (fst (view_function ep w),
      \<lparr>status = 500, body = JObject [(''error'', JString (str_exn e))]\<rparr>)"
  by (cases "view_function ep w")
     (simp add: full_dispatch_request_def handle_error_def jsonify_def)

theorem errors_go_to_handle_error_witness:
  "snd (view_function Error_endpoint example_env) =
     Inl (Exception ''Random error for testing from Flask'') \<and>
   full_dispatch_request Error_endpoint example_env =
     ([], \<lparr>status = 500,
            body = JObject [(''error'', JString ''Random error for testing from Flask'')]\<rparr>)"
proof -
  have h: "snd (view_function Error_endpoint example_env) =
      Inl (Exception ''Random error for testing from Flask'')"
    by (simp add: error_endpoint_def example_env_def)
  have f: "fst (view_function Error_endpoint example_env) = []"
    by (simp add: error_endpoint_def example_env_def)
  show ?thesis using h f errors_go_to_handle_error [OF h] by simp
qed

section \<open>No request depends on the ones before\<close>

lemma run_process_snoc:
  "run_process g (reqs @ [(ep, w)]) =
     (fst (run_process g reqs) @
        [full_dispatch_request ep (request_env (snd (run_process g reqs)) w)],
      advance (snd (run_process g reqs)) ep (request_env (snd (run_process g reqs)) w))"
proof (induction g reqs rule: run_process.induct)
  case (1 g)
  then show ?case by simp
next
  case (2 g ep' w' reqs)
  then show ?case by (simp add: case_prod_beta)
qed

text \<open>
  Each view function reads the clock, the sensors and its own draws, and nothing else of
  its surroundings: two surroundings that agree on these give the same outcome.
\<close>

lemma view_function_reads:
  assumes "same_readings e1 e2" and "draws ep e1 = draws ep e2"
  shows "view_function ep e1 = view_function ep e2"
proof (cases ep)
  case Home
  with assms show ?thesis by (auto simp: home_def same_readings_def)
next
  case Health
  with assms show ?thesis by (auto simp: health_def same_readings_def)
next
  case Get_data
  with assms show ?thesis
    by (auto simp: get_data_def time_sleep_def randint_def same_readings_def split: if_splits)
next
  case Slow_endpoint
  with assms show ?thesis
    by (auto simp: slow_endpoint_def time_sleep_def same_readings_def)
next
  case Error_endpoint
  with assms show ?thesis by (simp add: error_endpoint_def)
next
  case System_info
  with assms show ?thesis by (auto simp: system_info_def same_readings_def)
qed

lemma same_readings_request_env:
  "same_readings w1 w2 \<Longrightarrow> same_readings (request_env g1 w1) (request_env g2 w2)"
  by (simp add: same_readings_def request_env_def)

text \<open>
  Claim C8. Take any two generators, any two histories of earlier requests, and after each
  history a request to the same endpoint that finds the same clock values and sensor
  readings and is handed the same draws by its generator. The two answers, sleeps included,
  are identical: the earlier requests reach a view function only through the values it
  draws, and what it returns is the outcome of the view function on the readings and draws
  of its own request.
\<close>

theorem responses_depend_on_readings_and_draws:
  assumes "same_readings w1 w2"
    and "draws ep (request_env (snd (run_process g1 before1)) w1) =
         draws ep (request_env (snd (run_process g2 before2)) w2)"
  shows "last (fst (run_process g1 (before1 @ [(ep, w1)]))) =
         last (fst (run_process g2 (before2 @ [(ep, w2)]))) \<and>
         view_function ep (request_env (snd (run_process g1 before1)) w1) =
         view_function ep (request_env (snd (run_process g2 before2)) w2)"
proof -
  let ?e1 = "request_env (snd (run_process g1 before1)) w1"
  let ?e2 = "request_env (snd (run_process g2 before2)) w2"
  have "same_readings ?e1 ?e2"
    using assms(1) by (rule same_readings_request_env)
  then have v: "view_function ep ?e1 = view_function ep ?e2"
    using assms(2) by (rule view_function_reads)
  then have "full_dispatch_request ep ?e1 = full_dispatch_request ep ?e2"
    by (simp add: full_dispatch_request_def)
  with v show ?thesis by (simp add: run_process_snoc)
qed

theorem responses_depend_on_readings_and_draws_witness:
  "same_readings example_env example_env \<and>
   draws Get_data (request_env (snd (run_process example_generator [])) example_env) =
   draws Get_data (request_env (snd (run_process example_generator
      [(Get_data, example_env), (Error_endpoint, example_env)])) example_env) \<and>
   randbelow_calls (snd (run_process example_generator
      [(Get_data, example_env), (Error_endpoint, example_env)])) = 3 \<and>
   last (fst (run_process example_generator [(Get_data, example_env)])) =
   last (fst (run_process example_generator
      [(Get_data, example_env), (Error_endpoint, example_env), (Get_data, example_env)]))"
proof -
  have a: "same_readings example_env example_env" by (simp add: same_readings_def)
  have b: "draws Get_data (request_env (snd (run_process example_generator [])) example_env) =
     draws Get_data (request_env (snd (run_process example_generator
        [(Get_data, example_env), (Error_endpoint, example_env)])) example_env)"
    by (simp add: request_env_def advance_def example_generator_def uniform_def)
  have c: "randbelow_calls (snd (run_process example_generator
      [(Get_data, example_env), (Error_endpoint, example_env)])) = 3"
    by (simp add: request_env_def advance_def example_generator_def uniform_def)
  note d = responses_depend_on_readings_and_draws [OF a b, THEN conjunct1,
      unfolded append_Nil append_Cons]
  show ?thesis by (intro conjI) (rule a b c d)+
qed

section \<open>Loading with a port that is not an integer\<close>

text \<open>
  Claim C10. When the variable \<^verbatim>\<open>PORT\<close> is set to a string that does not parse as an integer,
  that is a string on which \<^verbatim>\<open>int\<close> raises, the conversion raises while the module is loaded:
  the load fails, and the program ends with that error and with no request answered. This
  holds whatever strings \<^verbatim>\<open>int\<close> accepts.
\<close>

theorem bad_port_fails_at_load:
  "environ ''PORT'' = Some s \<Longrightarrow> int_str s = None \<Longrightarrow>
   load_module int_str environ = Inl (InvalidLiteral s) \<and>
   program int_str environ reqs = Inl (InvalidLiteral s)"
  by (simp add: load_module_def program_def os_getenv_def)

text \<open>
  An instance: \<^verbatim>\<open>PORT=abc\<close>, with an \<^verbatim>\<open>int\<close> of which only the results on \<^verbatim>\<open>5000\<close> and
  \<^verbatim>\<open>abc\<close> matter here.
\<close>

theorem bad_port_fails_at_load_witness:
  "[''PORT'' \<mapsto> ''abc''] ''PORT'' = Some ''abc'' \<and>
   [''5000'' \<mapsto> 5000 :: int] ''abc'' = None \<and>
   load_module [''5000'' \<mapsto> 5000] [''PORT'' \<mapsto> ''abc''] = Inl (InvalidLiteral ''abc'') \<and>
   program [''5000'' \<mapsto> 5000] [''PORT'' \<mapsto> ''abc''] [(Home, example_env)] =
     Inl (InvalidLiteral ''abc'')"
proof -
  have a: "[''PORT'' \<mapsto> ''abc''] ''PORT'' = Some ''abc''" by simp
  have b: "[''5000'' \<mapsto> 5000 :: int] ''abc'' = None" by simp
  show ?thesis
    using a b
      bad_port_fails_at_load [of "[''PORT'' \<mapsto> ''abc'']" "''abc''" "[''5000'' \<mapsto> 5000]"
        "[(Home, example_env)]"]
    by simp
qed

section \<open>Formatting and reading back a timestamp\<close>

lemma is_digit_digit_char: "d < 10 \<Longrightarrow> is_digit (digit_char d)"
  by (simp add: is_digit_def digit_char_def)

lemma digit_value_digit_char: "d < 10 \<Longrightarrow> digit_value (digit_char d) = d"
  by (simp add: digit_value_def digit_char_def)

lemma digit_char_0: "digit_char 0 = CHR ''0''"
  unfolding digit_char_def by code_simp

lemma fixed_digits_0: "fixed_digits w 0 = replicate w (CHR ''0'')"
  by (induction w) (simp_all add: digit_char_0 replicate_append_same)

lemma show_nat_fixed:
  "n < 10 ^ w \<Longrightarrow> 0 < w \<Longrightarrow>
   length (show_nat n) \<le> w \<and>
   fixed_digits w n = replicate (w - length (show_nat n)) (CHR ''0'') @ show_nat n"
proof (induction w arbitrary: n)
  case 0
  then show ?case by simp
next
  case (Suc w)
  show ?case
  proof (cases "n < 10")
    case True
    then show ?thesis
      by (simp add: show_nat.simps [of n] fixed_digits_0)
  next
    case False
    then have w: "0 < w" using Suc.prems by (cases w) auto
    have "n div 10 < 10 ^ w"
      using Suc.prems by (simp add: less_mult_imp_div_less mult.commute)
    from Suc.IH [OF this w] False show ?thesis
      by (simp add: show_nat.simps [of n] Suc_diff_le)
  qed
qed

lemma zero_pad_fixed: "n < 10 ^ w \<Longrightarrow> 0 < w \<Longrightarrow> zero_pad w n = fixed_digits w n"
  using show_nat_fixed [of n w] by (simp add: zero_pad_def)

lemma read_digits_add:
  "read_digits (a + b) acc s =
     (case read_digits a acc s of None \<Rightarrow> None | Some (v, s') \<Rightarrow> read_digits b v s')"
proof (induction a arbitrary: acc s)
  case 0
  then show ?case by simp
next
  case (Suc a)
  then show ?case by (cases s) simp_all
qed

lemma read_fixed_digits:
  "read_digits w acc (fixed_digits w n @ rest) = Some (acc * 10 ^ w + n mod 10 ^ w, rest)"
proof (induction w arbitrary: n acc rest)
  case 0
  then show ?case by simp
next
  case (Suc w)
  have "read_digits (w + 1) acc (fixed_digits w (n div 10) @ digit_char (n mod 10) # rest) =
        Some (10 * (acc * 10 ^ w + (n div 10) mod 10 ^ w) + n mod 10, rest)"
    unfolding read_digits_add
    by (simp add: Suc.IH is_digit_digit_char digit_value_digit_char)
  moreover have "10 * ((n div 10) mod 10 ^ w) + n mod 10 = n mod 10 ^ Suc w"
    by (simp add: mod_mult2_eq)
  ultimately show ?case by (simp add: algebra_simps)
qed

lemma read_zero_pad:
  "n < 10 ^ w \<Longrightarrow> 0 < w \<Longrightarrow> read_digits w 0 (zero_pad w n @ rest) = Some (n, rest)"
  by (simp add: zero_pad_fixed read_fixed_digits)

lemma read_fraction_us:
  "us < 1000000 \<Longrightarrow>
   read_fraction (if us \<noteq> 0 then ''.'' @ zero_pad 6 us else []) = Some us"
  using read_zero_pad [of us 6 "[]"] by (simp add: read_fraction_def)

lemma parse_isoformat:
  assumes "valid_datetime d"
  shows "parse_iso8601 (isoformat d) = Some d"
proof -
  from assms have b: "year d < 10 ^ 4" "month d < 10 ^ 2" "day d < 10 ^ 2" "hour d < 10 ^ 2"
    "minute d < 10 ^ 2" "second d < 10 ^ 2" "microsecond d < 1000000" and c: "calendar_ok d"
    by (auto simp: valid_datetime_def calendar_ok_def days_in_month_def split: if_splits)
  define frac where
    "frac = (if microsecond d \<noteq> 0 then ''.'' @ zero_pad 6 (microsecond d) else [])"
  have fr: "read_fraction frac = Some (microsecond d)"
    unfolding frac_def by (rule read_fraction_us [OF b(7)])
  have r4: "\<And>rest. read_digits 4 0 (zero_pad 4 (year d) @ rest) = Some (year d, rest)"
    by (rule read_zero_pad [OF b(1)]) simp
  have r2: "\<And>n rest. n < 10 ^ 2 \<Longrightarrow> read_digits 2 0 (zero_pad 2 n @ rest) = Some (n, rest)"
    by (rule read_zero_pad) simp_all
  have iso: "isoformat d =
     zero_pad 4 (year d) @ CHR ''-'' # zero_pad 2 (month d) @ CHR ''-'' # zero_pad 2 (day d) @
     CHR ''T'' # zero_pad 2 (hour d) @ CHR '':'' # zero_pad 2 (minute d) @ CHR '':'' #
     zero_pad 2 (second d) @ frac"
    unfolding isoformat_def frac_def by simp
  have eq: "\<lparr>year = year d, month = month d, day = day d, hour = hour d,
              minute = minute d, second = second d, microsecond = microsecond d\<rparr> = d"
    by (cases d) simp
  show ?thesis
    unfolding parse_iso8601_def iso
    by (simp add: eq r4 r2 [OF b(2)] r2 [OF b(3)] r2 [OF b(4)] r2 [OF b(5)] r2 [OF b(6)] fr c)
qed

lemma valid_example_datetime: "valid_datetime (datetime_now example_env)"
  by (simp add: example_env_def valid_datetime_def calendar_ok_def days_in_month_def is_leap_def)

lemma isoformat_example: "isoformat (datetime_now example_env) = ''2024-02-29T07:05:09.001234''"
  by (simp add: example_env_def isoformat_def zero_pad_def) code_simp

section \<open>The greeting\<close>

text \<open>
  Claim C6. The view function of \<^verbatim>\<open>/\<close> has no failing branch: for all surroundings it
  returns, the request is answered with status 200, the message is a fixed non-empty text and
  the project is \<^verbatim>\<open>cliente3\<close>. The timestamp is \<open>isoformat\<close> of the clock reading; for every value
  a datetime object can hold it is well-formed ISO-8601, and reading it back gives the clock
  reading again.
\<close>

theorem home_cannot_fail:
  "(\<exists>r. home w = ([], Inr r) \<and> full_dispatch_request Home w = ([], r) \<and> status r = 200 \<and>
     body_field r ''message'' = Some (JString ''Hello from Cliente 3 - Flask App!'') \<and>
     body_field r ''timestamp'' = Some (JString (isoformat (datetime_now w))) \<and>
     body_field r ''project'' = Some (JString ''cliente3'')) \<and>
   ''Hello from Cliente 3 - Flask App!'' \<noteq> [] \<and>
   (valid_datetime (datetime_now w) \<longrightarrow>
      iso8601_wf (isoformat (datetime_now w)) \<and>
      parse_iso8601 (isoformat (datetime_now w)) = Some (datetime_now w))"
  by (simp add: home_def full_dispatch_request_def body_field_jsonify status_jsonify
      iso8601_wf_def parse_isoformat)

theorem home_cannot_fail_witness:
  "valid_datetime (datetime_now example_env) \<and>
   iso8601_wf ''2024-02-29T07:05:09.001234'' \<and>
   parse_iso8601 ''2024-02-29T07:05:09.001234'' = Some (datetime_now example_env) \<and>
   (\<exists>r. full_dispatch_request Home example_env = ([], r) \<and> status r = 200 \<and>
      body_field r ''timestamp'' = Some (JString ''2024-02-29T07:05:09.001234'') \<and>
      body_field r ''project'' = Some (JString ''cliente3''))"
  using home_cannot_fail [of example_env] valid_example_datetime
  by (auto simp: isoformat_example)


section \<open>Facts about serving and about the readings\<close>

lemma serve_nth:
  "i < length reqs \<Longrightarrow>
   serve reqs ! i = full_dispatch_request (fst (reqs ! i)) (snd (reqs ! i))"
proof (induction reqs arbitrary: i rule: serve.induct)
  case 1
  then show ?case by simp
next
  case (2 ep w reqs)
  then show ?case by (cases i) simp_all
qed

lemma get_data_ok:
  assumes "0 \<le> random_random w 0"
  shows "get_data w =
     ([uniform 0.1 0.5 (random_random w 0)],
      Inr (jsonify
         [(''customers'', JInt (randint w 0 100 1000)),
          (''sales'', JInt (randint w 1 50 500)),
          (''profit'', JInt (randint w 2 1000 10000)),
          (''timestamp'', JString (isoformat (datetime_now w)))]))"
proof -
  have "0 \<le> uniform 0.1 0.5 (random_random w 0)"
    using assms by (simp add: uniform_def)
  then show ?thesis by (simp add: get_data_def time_sleep_def)
qed

lemma health_ok:
  assumes "Process_create_time w = Inr c" and "Process_memory_percent w = Inr m"
    and "Process_cpu_percent w = Inr p"
  shows "health w =
     ([], Inr (jsonify
        [(''status'', JString ''healthy''),
         (''uptime'', JFloat (time_time w - c)),
         (''memory_percent'', JFloat m),
         (''cpu_percent'', JFloat p),
         (''timestamp'', JString (isoformat (datetime_now w)))]))"
  using assms by (simp add: health_def bind_exn_def)

lemma health_Inr_readings:
  assumes "snd (health w) = Inr r"
  shows "\<exists>c m p. Process_create_time w = Inr c \<and> Process_memory_percent w = Inr m \<and>
           Process_cpu_percent w = Inr p"
  using assms by (auto simp: health_def bind_exn_def split: sum.splits)

lemma status_handle_error: "status (handle_error e) = 500"
  by (simp add: handle_error_def)

lemma dispatch_200:
  assumes "full_dispatch_request ep w = (s, r)" and "status r = 200"
  shows "view_function ep w = (s, Inr r)"
proof (cases "view_function ep w")
  case (Pair sl res)
  show ?thesis
  proof (cases res)
    case (Inl e)
    with Pair assms have "status (handle_error e) = 200"
      by (simp add: full_dispatch_request_def)
    then show ?thesis by (simp add: status_handle_error)
  next
    case (Inr r')
    with Pair assms show ?thesis by (simp add: full_dispatch_request_def)
  qed
qed

section \<open>The mock business data\<close>

text \<open>
  Claim C3. In every successful response of \<^verbatim>\<open>/api/data\<close> the fields \<^verbatim>\<open>customers\<close>,
  \<^verbatim>\<open>sales\<close> and \<^verbatim>\<open>profit\<close> are integers within 100 to 1000, 50 to 500 and 1000 to 10000, both
  ends included. Each comes from a draw of its own (the draws numbered 0, 1 and 2 of the
  request), and every combination of three values in these ranges is the response of some
  draws: no field restricts another.
\<close>

theorem get_data_ranges:
  assumes "rng_ok w" and "snd (get_data w) = Inr r"
  shows "(\<exists>c s p. body_field r ''customers'' = Some (JInt c) \<and>
            body_field r ''sales'' = Some (JInt s) \<and> body_field r ''profit'' = Some (JInt p) \<and>
            c = 100 + random_randbelow w 0 901 \<and> s = 50 + random_randbelow w 1 451 \<and>
            p = 1000 + random_randbelow w 2 9001 \<and>
            100 \<le> c \<and> c \<le> 1000 \<and> 50 \<le> s \<and> s \<le> 500 \<and> 1000 \<le> p \<and> p \<le> 10000) \<and>
         (\<forall>c s p. 100 \<le> c \<and> c \<le> 1000 \<and> 50 \<le> s \<and> s \<le> 500 \<and> 1000 \<le> p \<and> p \<le> 10000 \<longrightarrow>
            (\<exists>w' r'. rng_ok w' \<and> snd (get_data w') = Inr r' \<and>
               body_field r' ''customers'' = Some (JInt c) \<and>
               body_field r' ''sales'' = Some (JInt s) \<and>
               body_field r' ''profit'' = Some (JInt p)))"
proof (intro conjI allI impI)
  from assms(1) have u: "0 \<le> random_random w 0"
    and b: "\<And>i n. 0 < n \<Longrightarrow> 0 \<le> random_randbelow w i n \<and> random_randbelow w i n < n"
    by (simp_all add: rng_ok_def)
  from assms(2) have r: "r = jsonify
         [(''customers'', JInt (randint w 0 100 1000)),
          (''sales'', JInt (randint w 1 50 500)),
          (''profit'', JInt (randint w 2 1000 10000)),
          (''timestamp'', JString (isoformat (datetime_now w)))]"
    by (simp add: get_data_ok [OF u])
  from b [of 901 0] b [of 451 1] b [of 9001 2]
  show "\<exists>c s p. body_field r ''customers'' = Some (JInt c) \<and>
            body_field r ''sales'' = Some (JInt s) \<and> body_field r ''profit'' = Some (JInt p) \<and>
            c = 100 + random_randbelow w 0 901 \<and> s = 50 + random_randbelow w 1 451 \<and>
            p = 1000 + random_randbelow w 2 9001 \<and>
            100 \<le> c \<and> c \<le> 1000 \<and> 50 \<le> s \<and> s \<le> 500 \<and> 1000 \<le> p \<and> p \<le> 10000"
    by (simp add: r body_field_jsonify randint_def)
next
  fix c s p :: int
  assume range: "100 \<le> c \<and> c \<le> 1000 \<and> 50 \<le> s \<and> s \<le> 500 \<and> 1000 \<le> p \<and> p \<le> 10000"
  define w' where "w' = w\<lparr>random_random := (\<lambda>i. 0),
     random_randbelow := (\<lambda>i n. if i = 0 \<and> n = 901 then c - 100
                                else if i = 1 \<and> n = 451 then s - 50
                                else if i = 2 \<and> n = 9001 then p - 1000 else 0)\<rparr>"
  have ok: "rng_ok w'" using range by (simp add: rng_ok_def w'_def)
  have u: "0 \<le> random_random w' 0" by (simp add: w'_def)
  define r' where "r' = jsonify
         [(''customers'', JInt c), (''sales'', JInt s), (''profit'', JInt p),
          (''timestamp'', JString (isoformat (datetime_now w')))]"
  have "snd (get_data w') = Inr r'"
    unfolding r'_def by (simp add: get_data_ok [OF u] randint_def) (simp add: w'_def)
  moreover have "body_field r' ''customers'' = Some (JInt c) \<and>
      body_field r' ''sales'' = Some (JInt s) \<and> body_field r' ''profit'' = Some (JInt p)"
    by (simp add: r'_def body_field_jsonify)
  ultimately show "\<exists>w' r'. rng_ok w' \<and> snd (get_data w') = Inr r' \<and>
               body_field r' ''customers'' = Some (JInt c) \<and>
               body_field r' ''sales'' = Some (JInt s) \<and>
               body_field r' ''profit'' = Some (JInt p)"
    using ok by blast
qed

lemma get_data_example:
  "snd (get_data example_env) = Inr (jsonify
         [(''customers'', JInt 1000), (''sales'', JInt 500), (''profit'', JInt 10000),
          (''timestamp'', JString (isoformat (datetime_now example_env)))])"
proof -
  have "0 \<le> random_random example_env 0" by (simp add: example_env_def)
  from get_data_ok [OF this] show ?thesis
    by (simp add: randint_def) (simp add: example_env_def)
qed

theorem get_data_ranges_witness:
  "rng_ok example_env \<and>
   snd (get_data example_env) = Inr (jsonify
         [(''customers'', JInt 1000), (''sales'', JInt 500), (''profit'', JInt 10000),
          (''timestamp'', JString (isoformat (datetime_now example_env)))]) \<and>
   (\<exists>c s p. 100 \<le> c \<and> c \<le> 1000 \<and> 50 \<le> s \<and> s \<le> 500 \<and> 1000 \<le> p \<and> p \<le> 10000 \<and>
      c = 100 + random_randbelow example_env 0 901 \<and>
      s = 50 + random_randbelow example_env 1 451 \<and>
      p = 1000 + random_randbelow example_env 2 9001) \<and>
   (\<exists>w' r'. rng_ok w' \<and> snd (get_data w') = Inr r' \<and>
      body_field r' ''customers'' = Some (JInt 100) \<and>
      body_field r' ''sales'' = Some (JInt 500) \<and>
      body_field r' ''profit'' = Some (JInt 5000))"
proof -
  note t = get_data_ranges [OF rng_ok_example_env get_data_example]
  from t have a: "\<exists>c s p. 100 \<le> c \<and> c \<le> 1000 \<and> 50 \<le> s \<and> s \<le> 500 \<and> 1000 \<le> p \<and> p \<le> 10000 \<and>
      c = 100 + random_randbelow example_env 0 901 \<and>
      s = 50 + random_randbelow example_env 1 451 \<and>
      p = 1000 + random_randbelow example_env 2 9001"
    by blast
  from t have "100 \<le> (100::int) \<and> (100::int) \<le> 1000 \<and> 50 \<le> (500::int) \<and> (500::int) \<le> 500 \<and>
      1000 \<le> (5000::int) \<and> (5000::int) \<le> 10000 \<longrightarrow>
      (\<exists>w' r'. rng_ok w' \<and> snd (get_data w') = Inr r' \<and>
        body_field r' ''customers'' = Some (JInt 100) \<and>
        body_field r' ''sales'' = Some (JInt 500) \<and>
        body_field r' ''profit'' = Some (JInt 5000))"
    by blast
  then have b: "\<exists>w' r'. rng_ok w' \<and> snd (get_data w') = Inr r' \<and>
        body_field r' ''customers'' = Some (JInt 100) \<and>
        body_field r' ''sales'' = Some (JInt 500) \<and>
        body_field r' ''profit'' = Some (JInt 5000)"
    by simp
  from rng_ok_example_env get_data_example a b show ?thesis by blast
qed


section \<open>The slow endpoint\<close>

text \<open>
  Claim C7. The view function of \<^verbatim>\<open>/api/slow\<close> makes one call of \<^verbatim>\<open>time.sleep\<close>, with
  \<^verbatim>\<open>uniform(1, 3)\<close> of its draw, a value between 1 and 3, and then returns with status 200
  the fixed message. \<^verbatim>\<open>uniform(1, 3)\<close> is a one-to-one affine map of the draws in \<open>[0, 1)\<close> onto
  \<open>[1, 3)\<close>, so a uniform draw gives a uniform length.
\<close>

theorem slow_endpoint_sleeps_then_answers:
  assumes "rng_ok w"
  shows "(\<exists>d r. slow_endpoint w = ([d], Inr r) \<and>
            full_dispatch_request Slow_endpoint w = ([d], r) \<and>
            d = uniform 1 3 (random_random w 0) \<and> 1 \<le> d \<and> d \<le> 3 \<and> status r = 200 \<and>
            body_field r ''message'' = Some (JString ''This was a slow request from Flask'')) \<and>
         uniform 1 3 ` {0 ..< 1} = {1 ..< 3} \<and> inj (uniform 1 3)"
proof (intro conjI)
  from assms have u: "0 \<le> random_random w 0" "random_random w 0 < 1"
    by (simp_all add: rng_ok_def)
  then show "\<exists>d r. slow_endpoint w = ([d], Inr r) \<and>
            full_dispatch_request Slow_endpoint w = ([d], r) \<and>
            d = uniform 1 3 (random_random w 0) \<and> 1 \<le> d \<and> d \<le> 3 \<and> status r = 200 \<and>
            body_field r ''message'' = Some (JString ''This was a slow request from Flask'')"
    by (simp add: slow_endpoint_def full_dispatch_request_def time_sleep_def uniform_def
        body_field_jsonify status_jsonify)
next
  show "uniform 1 3 ` {0 ..< 1} = {1 ..< 3}"
  proof (rule set_eqI)
    fix d :: real
    show "d \<in> uniform 1 3 ` {0 ..< 1} \<longleftrightarrow> d \<in> {1 ..< 3}"
    proof
      assume "d \<in> uniform 1 3 ` {0 ..< 1}"
      then show "d \<in> {1 ..< 3}" by (auto simp: uniform_def)
    next
      assume d: "d \<in> {1 ..< 3}"
      then have "(d - 1) / 2 \<in> {0 ..< 1}" by simp
      moreover have "d = uniform 1 3 ((d - 1) / 2)" by (simp add: uniform_def field_simps)
      ultimately show "d \<in> uniform 1 3 ` {0 ..< 1}" by (rule rev_image_eqI)
    qed
  qed
next
  show "inj (uniform 1 3)" by (simp add: inj_def uniform_def)
qed

theorem slow_endpoint_sleeps_then_answers_witness:
  "rng_ok example_env \<and>
   (\<exists>r. slow_endpoint example_env = ([2.5], Inr r) \<and>
      full_dispatch_request Slow_endpoint example_env = ([2.5], r) \<and> status r = 200 \<and>
      body_field r ''message'' = Some (JString ''This was a slow request from Flask''))"
proof -
  have d: "uniform 1 3 (random_random example_env 0) = 2.5"
    by (simp add: uniform_def example_env_def)
  from slow_endpoint_sleeps_then_answers [OF rng_ok_example_env] rng_ok_example_env
  show ?thesis unfolding d by blast
qed

section \<open>The health probe\<close>





text \<open>
  Claim C5, as it is written, speaks of every two successive successful responses. The
  uptime is the wall clock \<^verbatim>\<open>time.time()\<close> minus the creation time of the process, and the wall
  clock can be set back: with a process created at 900, a first request at clock 1000 and a
  second one at clock 800, both succeed, the uptime goes from 100 to -100, which is negative
  and smaller than the one before.
\<close>

theorem health_uptime_counterexample:
  "map (\<lambda>x. status (snd x))
      (serve [(Health, example_env), (Health, example_env\<lparr>time_time := 800\<rparr>)]) = [200, 200] \<and>
   map (\<lambda>x. body_field (snd x) ''uptime'')
      (serve [(Health, example_env), (Health, example_env\<lparr>time_time := 800\<rparr>)])
     = [Some (JFloat 100), Some (JFloat (- 100))] \<and>
   \<not> (0 \<le> (- 100 :: real)) \<and> \<not> ((100 :: real) \<le> - 100)"
  by (simp add: full_dispatch_request_def health_def bind_exn_def example_env_def
      body_field_jsonify status_jsonify)

text \<open>
  Claim C5, amended. For two successful responses of \<^verbatim>\<open>/health\<close> in the life of one process,
  the first served before the second, for which the same creation time is read, the wall
  clock of the first is not before that creation time and the wall clock of the second is
  not before the wall clock of the first: each uptime is the clock reading minus the creation
  time, the first is not negative and the second is not smaller than the first.
\<close>

theorem health_uptime_monotone:
  assumes "i < j" and "j < length reqs"
    and "reqs ! i = (Health, w1)" and "reqs ! j = (Health, w2)"
    and "serve reqs ! i = (s1, r1)" and "serve reqs ! j = (s2, r2)"
    and "status r1 = 200" and "status r2 = 200"
    and "Process_create_time w1 = Inr c" and "Process_create_time w2 = Inr c"
    and "c \<le> time_time w1" and "time_time w1 \<le> time_time w2"
  shows "body_field r1 ''uptime'' = Some (JFloat (time_time w1 - c)) \<and>
         body_field r2 ''uptime'' = Some (JFloat (time_time w2 - c)) \<and>
         0 \<le> time_time w1 - c \<and> time_time w1 - c \<le> time_time w2 - c"
proof -
  have up: "body_field r ''uptime'' = Some (JFloat (time_time w - c))"
    if "k < length reqs" "reqs ! k = (Health, w)" "serve reqs ! k = (s, r)" "status r = 200"
      "Process_create_time w = Inr c" for k w s r
  proof -
    from serve_nth [OF that(1)] that(2,3) have "full_dispatch_request Health w = (s, r)"
      by simp
    from dispatch_200 [OF this that(4)] have h: "snd (health w) = Inr r" by simp
    from health_Inr_readings [OF h] that(5) obtain m p
      where rd: "Process_create_time w = Inr c" "Process_memory_percent w = Inr m"
        "Process_cpu_percent w = Inr p"
      by auto
    from h have "r = jsonify
        [(''status'', JString ''healthy''),
         (''uptime'', JFloat (time_time w - c)),
         (''memory_percent'', JFloat m),
         (''cpu_percent'', JFloat p),
         (''timestamp'', JString (isoformat (datetime_now w)))]"
      by (simp add: health_ok [OF rd])
    then show ?thesis by (simp add: body_field_jsonify)
  qed
  from assms(1,2) have i: "i < length reqs" by simp
  from up [OF i assms(3,5,7,9)] up [OF assms(2,4,6,8,10)] assms(11,12)
  show ?thesis by simp
qed

theorem health_uptime_monotone_witness:
  "(0::nat) < 1 \<and>
   1 < length [(Health, example_env), (Health, example_env\<lparr>time_time := 1010\<rparr>)] \<and>
   Process_create_time example_env = Inr 900 \<and>
   Process_create_time (example_env\<lparr>time_time := 1010\<rparr>) = Inr 900 \<and>
   (900 :: real) \<le> time_time example_env \<and>
   time_time example_env \<le> time_time (example_env\<lparr>time_time := 1010\<rparr>) \<and>
   map (\<lambda>x. status (snd x))
     (serve [(Health, example_env), (Health, example_env\<lparr>time_time := 1010\<rparr>)]) = [200, 200] \<and>
   map (\<lambda>x. body_field (snd x) ''uptime'')
     (serve [(Health, example_env), (Health, example_env\<lparr>time_time := 1010\<rparr>)])
     = [Some (JFloat 100), Some (JFloat 110)] \<and>
   (0 :: real) \<le> 100 \<and> (100 :: real) \<le> 110"
proof -
  define reqs where "reqs = [(Health, example_env), (Health, example_env\<lparr>time_time := 1010\<rparr>)]"
  obtain s1 r1 where a: "serve reqs ! 0 = (s1, r1)" by (cases "serve reqs ! 0")
  obtain s2 r2 where b: "serve reqs ! 1 = (s2, r2)" by (cases "serve reqs ! 1")
  have st: "status r1 = 200" "status r2 = 200"
    using a b
    by (auto simp: reqs_def full_dispatch_request_def health_def bind_exn_def example_env_def
        status_jsonify)
  have h: "(0::nat) < 1" "1 < length reqs" "reqs ! 0 = (Health, example_env)"
    "reqs ! 1 = (Health, example_env\<lparr>time_time := 1010\<rparr>)"
    by (simp_all add: reqs_def)
  have c: "Process_create_time example_env = Inr 900"
    "Process_create_time (example_env\<lparr>time_time := 1010\<rparr>) = Inr 900"
    "(900 :: real) \<le> time_time example_env"
    "time_time example_env \<le> time_time (example_env\<lparr>time_time := 1010\<rparr>)"
    by (simp_all add: example_env_def)
  note t = health_uptime_monotone [OF h a b st c]
  have sv: "serve reqs = [(s1, r1), (s2, r2)]"
    using a b by (simp add: reqs_def)
  have tt: "time_time example_env = 1000" "time_time (example_env\<lparr>time_time := 1010\<rparr>) = 1010"
    by (simp_all add: example_env_def)
  from t st c h show ?thesis
    unfolding sv reqs_def [symmetric] by (simp add: sv tt)
qed


end
